theory Spec2Isabelle
  imports Complex_Main "HOL-Library.Multiset"
begin

section \<open>Python's decimal arithmetic\<close>

text \<open>
  A finite \<^verbatim>\<open>decimal.Decimal\<close> is a signed coefficient and an exponent; its value is
  \<open>coef * 10 ^ expo\<close>. \<^verbatim>\<open>Decimal("5.0")\<close> is coefficient 50, exponent -1. The sign
  is kept in the coefficient (a negative zero is not distinguished), and NaN and the
  infinities are not represented.
\<close>

record decimal =
  coef :: int
  expo :: int

abbreviation Decimal :: "int \<Rightarrow> int \<Rightarrow> decimal" where
  "Decimal c e \<equiv> \<lparr>coef = c, expo = e\<rparr>"

definition dec_val :: "decimal \<Rightarrow> rat" where
  "dec_val d = (if 0 \<le> expo d then of_int (coef d) * 10 ^ nat (expo d)
                else of_int (coef d) / 10 ^ nat (- expo d))"

text \<open>The default context: 28 significant digits, rounding ROUND_HALF_EVEN.\<close>

definition context_prec :: nat where
  "context_prec = 28"

fun ndigits :: "nat \<Rightarrow> nat" where
  "ndigits n = (if n < 10 then 1 else Suc (ndigits (n div 10)))"

declare ndigits.simps [simp del]

text \<open>Dropping the last \<open>k\<close> digits of a coefficient, ties going to the even neighbour.\<close>

definition round_half_even :: "nat \<Rightarrow> nat \<Rightarrow> nat" where
  "round_half_even n k =
     (if k = 0 then n
      else let q = n div 10 ^ k; r = n mod 10 ^ k; h = 5 * 10 ^ (k - 1)
           in if h < r \<or> (r = h \<and> odd q) then q + 1 else q)"

text \<open>
  \<^verbatim>\<open>Decimal._fix\<close>: a result with more than 28 digits is rounded to 28; when the
  rounding carries into a 29th digit the last digit (a zero) is dropped. The exponent
  limits of the context (Emax = 999999) are not modelled.
\<close>

definition dec_fix :: "decimal \<Rightarrow> decimal" where
  "dec_fix d =
     (let n = nat \<bar>coef d\<bar> in
      if ndigits n \<le> context_prec then d
      else let k = ndigits n - context_prec; q = round_half_even n k in
        if ndigits q \<le> context_prec
        then \<lparr>coef = sgn (coef d) * int q, expo = expo d + int k\<rparr>
        else \<lparr>coef = sgn (coef d) * int (q div 10), expo = expo d + int k + 1\<rparr>)"

text \<open>\<^verbatim>\<open>a + b\<close> and \<^verbatim>\<open>a * b\<close>: the exact result, then the context's rounding.\<close>

definition dec_add :: "decimal \<Rightarrow> decimal \<Rightarrow> decimal" where
  "dec_add a b =
     (let e = min (expo a) (expo b)
      in dec_fix \<lparr>coef = coef a * 10 ^ nat (expo a - e) + coef b * 10 ^ nat (expo b - e),
                  expo = e\<rparr>)"

definition dec_mul :: "decimal \<Rightarrow> decimal \<Rightarrow> decimal" where
  "dec_mul a b = dec_fix \<lparr>coef = coef a * coef b, expo = expo a + expo b\<rparr>"

section \<open>Parcel pricing (app/routers/parcels.py)\<close>

datatype ParcelSize = SMALL | MEDIUM | LARGE

definition size_multiplier :: "ParcelSize \<Rightarrow> decimal" where
  "size_multiplier parcel_size =
     (case parcel_size of
        SMALL \<Rightarrow> Decimal 10 (-1)
      | MEDIUM \<Rightarrow> Decimal 15 (-1)
      | LARGE \<Rightarrow> Decimal 20 (-1))"

text \<open>
  \<^verbatim>\<open>calculate_delivery_fee(distance_km, parcel_size)\<close>. The float argument enters only
  through \<^verbatim>\<open>Decimal(str(distance_km))\<close>, so a finite float is represented here by the
  decimal that \<^verbatim>\<open>str\<close> prints for it: 10.0 is \<open>Decimal 100 (-1)\<close>.
\<close>

definition calculate_delivery_fee :: "decimal \<Rightarrow> ParcelSize \<Rightarrow> decimal" where
  "calculate_delivery_fee distance_km parcel_size =
     (let base_fee = Decimal 50 (-1);
          distance_fee = dec_mul distance_km (Decimal 20 (-1));
          total_fee = dec_mul (dec_add base_fee distance_fee) (size_multiplier parcel_size)
      in total_fee)"


section \<open>Python's float division of integers\<close>

text \<open>
  \<^verbatim>\<open>sum(...) / len(...)\<close> divides two Python integers: the result is the IEEE double
  nearest to the exact quotient (ties to even), or ZeroDivisionError. A double is
  represented by its exact rational value. The quotient is scaled so that its integer
  part has 53 bits, rounded, and scaled back; the exponent range of doubles (overflow,
  subnormals) is not modelled.
\<close>

datatype error =
    NotFound             \<comment> \<open>HTTP 404\<close>
  | Forbidden            \<comment> \<open>HTTP 403\<close>
  | AlreadyAssigned      \<comment> \<open>HTTP 400, "... already assigned to a driver"\<close>
  | InvalidTransition    \<comment> \<open>HTTP 400, "Cannot cancel ... with status: ...",
                             "Can only review delivered ...", "No driver assigned to this delivery"\<close>
  | InvalidItem nat      \<comment> \<open>HTTP 400, "Menu item <id> not available"\<close>
  | AlreadyReviewed      \<comment> \<open>HTTP 400, "... already reviewed"\<close>
  | ValidationError      \<comment> \<open>HTTP 422, raised by the request schema before the handler runs\<close>
  | IntegrityError       \<comment> \<open>the primary key of a new row is already present\<close>
  | AttributeError       \<comment> \<open>attribute access on \<^verbatim>\<open>None\<close>\<close>
  | ValueError           \<comment> \<open>math domain error\<close>
  | ZeroDivisionError

fun bit_length :: "nat \<Rightarrow> nat" where
  "bit_length n = (if n = 0 then 0 else Suc (bit_length (n div 2)))"

declare bit_length.simps [simp del]

definition round_half_even_rat :: "rat \<Rightarrow> int" where
  "round_half_even_rat x =
     (let f = \<lfloor>x\<rfloor>; d = x - of_int f
      in if d < 1 / 2 then f else if 1 / 2 < d then f + 1 else if even f then f else f + 1)"

definition pow2 :: "int \<Rightarrow> rat" where
  "pow2 e = (if 0 \<le> e then 2 ^ nat e else 1 / 2 ^ nat (- e))"

definition py_truediv :: "int \<Rightarrow> int \<Rightarrow> error + rat" where
  "py_truediv a b =
     (if b = 0 then Inl ZeroDivisionError
      else if a = 0 then Inr 0
      else let x = \<bar>of_int a / of_int b\<bar>;
               e0 = int (bit_length (nat \<bar>a\<bar>)) - int (bit_length (nat \<bar>b\<bar>));
               e = (if pow2 e0 \<le> x then e0 else e0 - 1);
               m = round_half_even_rat (x * pow2 (52 - e))
           in Inr (of_int (sgn a * sgn b * m) * pow2 (e - 52)))"

section \<open>The tables (app/models)\<close>

type_synonym uuid = nat
type_synonym datetime = nat

datatype OrderStatus =
  PENDING | CONFIRMED | PREPARING | READY | PICKED_UP | DELIVERED | CANCELLED

datatype ParcelStatus =
  PARCEL_PENDING | ASSIGNED | PARCEL_PICKED_UP | IN_TRANSIT | PARCEL_DELIVERED | PARCEL_CANCELLED

datatype TargetType = RESTAURANT | DRIVER

text \<open>
  Each table keeps the columns that the handlers below read or write; descriptive
  columns (names, addresses, comments) and the \<^verbatim>\<open>created_at\<close>/\<^verbatim>\<open>updated_at\<close>
  bookkeeping are left out. Field names carry a prefix per table.
\<close>

record restaurant =
  r_is_active :: bool
  r_rating_average :: rat
  r_delivery_fee :: decimal

record menu_item =
  mi_restaurant_id :: uuid
  mi_price :: decimal
  mi_is_available :: bool

record order_item =
  oi_order_id :: uuid
  oi_menu_item_id :: uuid
  oi_quantity :: int
  oi_unit_price :: decimal
  oi_total_price :: decimal

record food_order =
  fo_customer_id :: uuid
  fo_restaurant_id :: uuid
  fo_driver_id :: "uuid option"
  fo_status :: OrderStatus
  fo_subtotal :: decimal
  fo_delivery_fee :: decimal
  fo_tax :: decimal
  fo_total_amount :: decimal
  fo_delivered_at :: "datetime option"

text \<open>
  Float columns of a parcel (coordinates, estimated distance) hold the decimal that
  \<^verbatim>\<open>str\<close> prints for the float, as in \<open>calculate_delivery_fee\<close>.
\<close>

record parcel_delivery =
  pd_sender_id :: uuid
  pd_driver_id :: "uuid option"
  pd_pickup_latitude :: "decimal option"
  pd_pickup_longitude :: "decimal option"
  pd_delivery_latitude :: "decimal option"
  pd_delivery_longitude :: "decimal option"
  pd_parcel_size :: ParcelSize
  pd_status :: ParcelStatus
  pd_delivery_fee :: decimal
  pd_estimated_distance_km :: decimal
  pd_picked_up_at :: "datetime option"
  pd_delivered_at :: "datetime option"

record driver_profile =
  dp_rating_average :: rat
  dp_total_deliveries :: int

record review =
  rv_reviewer_id :: uuid
  rv_target_type :: TargetType
  rv_target_id :: uuid
  rv_order_id :: uuid
  rv_rating :: int

text \<open>
  The database session. Tables with a unique key are maps from that key (driver profiles
  are keyed by their unique \<^verbatim>\<open>user_id\<close>); order items and reviews are lists in
  insertion order.
\<close>

record db =
  restaurants :: "uuid \<rightharpoonup> restaurant"
  menu_items :: "uuid \<rightharpoonup> menu_item"
  food_orders :: "uuid \<rightharpoonup> food_order"
  order_items :: "order_item list"
  parcel_deliveries :: "uuid \<rightharpoonup> parcel_delivery"
  driver_profiles :: "uuid \<rightharpoonup> driver_profile"
  reviews :: "review list"

text \<open>A handler returns its response or the exception it raised, and the database it leaves.\<close>

type_synonym 'a result = "(error + 'a) \<times> db"

section \<open>Request schemas (app/schemas)\<close>

record OrderItemCreate =
  menu_item_id :: uuid
  quantity :: int

record FoodOrderCreate =
  restaurant_id :: uuid
  items :: "OrderItemCreate list"

record ParcelDeliveryCreate =
  pickup_latitude :: "decimal option"
  pickup_longitude :: "decimal option"
  delivery_latitude :: "decimal option"
  delivery_longitude :: "decimal option"
  parcel_size :: ParcelSize

text \<open>\<^verbatim>\<open>ReviewCreate.rating: int = Field(ge=1, le=5)\<close>.\<close>

definition valid_rating :: "int \<Rightarrow> bool" where
  "valid_rating rating \<longleftrightarrow> 1 \<le> rating \<and> rating \<le> 5"

section \<open>Food orders (app/routers/food_orders.py)\<close>

text \<open>
  The pricing loop of \<^verbatim>\<open>create_food_order\<close>, with its two accumulators. A missing or
  unavailable menu item raises; nothing else about an item is checked. The product
  \<^verbatim>\<open>menu_item.price * item.quantity\<close> converts the integer to a decimal with exponent 0.
\<close>

fun price_items ::
  "(uuid \<rightharpoonup> menu_item) \<Rightarrow> OrderItemCreate list \<Rightarrow> decimal \<Rightarrow> order_item list \<Rightarrow> uuid
     \<Rightarrow> error + (decimal \<times> order_item list)" where
  "price_items menu [] subtotal order_items_to_create order_id =
     Inr (subtotal, order_items_to_create)"
| "price_items menu (item # rest) subtotal order_items_to_create order_id =
     (case menu (menu_item_id item) of
        None \<Rightarrow> Inl (InvalidItem (menu_item_id item))
      | Some menu_item \<Rightarrow>
          if \<not> mi_is_available menu_item then Inl (InvalidItem (menu_item_id item))
          else let item_total = dec_mul (mi_price menu_item) (Decimal (quantity item) 0)
               in price_items menu rest (dec_add subtotal item_total)
                    (order_items_to_create @
                       [\<lparr>oi_order_id = order_id,
                         oi_menu_item_id = menu_item_id item,
                         oi_quantity = quantity item,
                         oi_unit_price = mi_price menu_item,
                         oi_total_price = item_total\<rparr>])
                    order_id)"

text \<open>
  \<^verbatim>\<open>create_food_order\<close>. The id that \<^verbatim>\<open>uuid.uuid4\<close> gives the new row is the
  argument \<open>new_id\<close>. The handler passes the values below to the row; the rounding that
  the \<^verbatim>\<open>Numeric(10, 2)\<close> columns apply when the row is written is outside the handler.
\<close>

definition create_food_order :: "db \<Rightarrow> FoodOrderCreate \<Rightarrow> uuid \<Rightarrow> uuid \<Rightarrow> food_order result" where
  "create_food_order s order_data current_user new_id =
     (case restaurants s (restaurant_id order_data) of
        None \<Rightarrow> (Inl NotFound, s)
      | Some restaurant \<Rightarrow>
          if \<not> r_is_active restaurant then (Inl NotFound, s)
          else
            (case price_items (menu_items s) (items order_data) (Decimal 0 (- 1)) [] new_id of
               Inl e \<Rightarrow> (Inl e, s)
             | Inr (subtotal, order_items_to_create) \<Rightarrow>
                 let delivery_fee = r_delivery_fee restaurant;
                     tax = dec_mul subtotal (Decimal 8 (- 2));
                     total_amount = dec_add (dec_add subtotal delivery_fee) tax;
                     new_order = \<lparr>fo_customer_id = current_user,
                                  fo_restaurant_id = restaurant_id order_data,
                                  fo_driver_id = None,
                                  fo_status = PENDING,
                                  fo_subtotal = subtotal,
                                  fo_delivery_fee = delivery_fee,
                                  fo_tax = tax,
                                  fo_total_amount = total_amount,
                                  fo_delivered_at = None\<rparr>
                 in if new_id \<in> dom (food_orders s) then (Inl IntegrityError, s)
                    else (Inr new_order,
                          s\<lparr>food_orders := (food_orders s)(new_id \<mapsto> new_order),
                            order_items := order_items s @ order_items_to_create\<rparr>)))"

definition cancel_order :: "db \<Rightarrow> uuid \<Rightarrow> uuid \<Rightarrow> uuid result" where
  "cancel_order s order_id current_user =
     (case food_orders s order_id of
        None \<Rightarrow> (Inl NotFound, s)
      | Some order \<Rightarrow>
          if fo_customer_id order \<noteq> current_user then (Inl Forbidden, s)
          else if fo_status order \<notin> {PENDING, CONFIRMED} then (Inl InvalidTransition, s)
          else (Inr order_id,
                s\<lparr>food_orders := (food_orders s)(order_id \<mapsto> order\<lparr>fo_status := CANCELLED\<rparr>)\<rparr>))"

text \<open>The reviews of one target, and their ratings, in table order.\<close>

definition target_ratings :: "review list \<Rightarrow> TargetType \<Rightarrow> uuid \<Rightarrow> int list" where
  "target_ratings rs tt tid =
     map rv_rating (filter (\<lambda>r. rv_target_type r = tt \<and> rv_target_id r = tid) rs)"

text \<open>\<^verbatim>\<open>db.query(Review).filter(...).first()\<close> of the already-reviewed check.\<close>

definition existing_review :: "review list \<Rightarrow> uuid \<Rightarrow> uuid \<Rightarrow> TargetType \<Rightarrow> review option" where
  "existing_review rs order_id reviewer tt =
     (case filter (\<lambda>r. rv_order_id r = order_id \<and> rv_reviewer_id r = reviewer
                          \<and> rv_target_type r = tt) rs of
        [] \<Rightarrow> None
      | r # _ \<Rightarrow> Some r)"

text \<open>
  \<^verbatim>\<open>review_restaurant\<close>. The review is committed before the average is recomputed, so
  a failure of the second half leaves the review in the table.
\<close>

definition review_restaurant :: "db \<Rightarrow> uuid \<Rightarrow> int \<Rightarrow> uuid \<Rightarrow> review result" where
  "review_restaurant s order_id rating current_user =
     (if \<not> valid_rating rating then (Inl ValidationError, s)
      else case food_orders s order_id of
        None \<Rightarrow> (Inl NotFound, s)
      | Some order \<Rightarrow>
          if fo_customer_id order \<noteq> current_user then (Inl Forbidden, s)
          else if fo_status order \<noteq> DELIVERED then (Inl InvalidTransition, s)
          else if existing_review (reviews s) order_id current_user RESTAURANT \<noteq> None
            then (Inl AlreadyReviewed, s)
          else
            let review = \<lparr>rv_reviewer_id = current_user,
                          rv_target_type = RESTAURANT,
                          rv_target_id = fo_restaurant_id order,
                          rv_order_id = order_id,
                          rv_rating = rating\<rparr>;
                s1 = s\<lparr>reviews := reviews s @ [review]\<rparr>;
                restaurant_reviews = target_ratings (reviews s1) RESTAURANT (fo_restaurant_id order)
            in if restaurant_reviews = [] then (Inr review, s1)
               else case py_truediv (sum_list restaurant_reviews) (int (length restaurant_reviews)) of
                 Inl e \<Rightarrow> (Inl e, s1)
               | Inr avg_rating \<Rightarrow>
                   (case restaurants s1 (fo_restaurant_id order) of
                      None \<Rightarrow> (Inl AttributeError, s1)
                    | Some restaurant \<Rightarrow>
                        (Inr review,
                         s1\<lparr>restaurants := (restaurants s1)
                              (fo_restaurant_id order \<mapsto>
                                 restaurant\<lparr>r_rating_average := avg_rating\<rparr>)\<rparr>)))"

section \<open>Parcel deliveries (app/routers/parcels.py)\<close>

text \<open>Truthiness of an optional float: \<^verbatim>\<open>None\<close> and zero are false.\<close>

definition truthy :: "decimal option \<Rightarrow> bool" where
  "truthy x = (case x of None \<Rightarrow> False | Some v \<Rightarrow> coef v \<noteq> 0)"

text \<open>
  \<^verbatim>\<open>create_parcel_delivery\<close>. The haversine computation of \<^verbatim>\<open>calculate_distance\<close>
  is floating-point trigonometry and enters as the parameter \<open>calculate_distance\<close>
  (it may raise a math domain error).
\<close>

definition create_parcel_delivery ::
  "(decimal \<Rightarrow> decimal \<Rightarrow> decimal \<Rightarrow> decimal \<Rightarrow> error + decimal)
     \<Rightarrow> db \<Rightarrow> ParcelDeliveryCreate \<Rightarrow> uuid \<Rightarrow> uuid \<Rightarrow> parcel_delivery result" where
  "create_parcel_delivery calculate_distance s parcel_data current_user new_id =
     (case (if list_all truthy [pickup_latitude parcel_data, pickup_longitude parcel_data,
                                delivery_latitude parcel_data, delivery_longitude parcel_data]
            then calculate_distance
                   (the (pickup_latitude parcel_data)) (the (pickup_longitude parcel_data))
                   (the (delivery_latitude parcel_data)) (the (delivery_longitude parcel_data))
            else Inr (Decimal 50 (- 1))) of
        Inl e \<Rightarrow> (Inl e, s)
      | Inr distance_km \<Rightarrow>
          let delivery_fee = calculate_delivery_fee distance_km (parcel_size parcel_data);
              parcel = \<lparr>pd_sender_id = current_user,
                        pd_driver_id = None,
                        pd_pickup_latitude = pickup_latitude parcel_data,
                        pd_pickup_longitude = pickup_longitude parcel_data,
                        pd_delivery_latitude = delivery_latitude parcel_data,
                        pd_delivery_longitude = delivery_longitude parcel_data,
                        pd_parcel_size = parcel_size parcel_data,
                        pd_status = PARCEL_PENDING,
                        pd_delivery_fee = delivery_fee,
                        pd_estimated_distance_km = distance_km,
                        pd_picked_up_at = None,
                        pd_delivered_at = None\<rparr>
          in if new_id \<in> dom (parcel_deliveries s) then (Inl IntegrityError, s)
             else (Inr parcel, s\<lparr>parcel_deliveries := (parcel_deliveries s)(new_id \<mapsto> parcel)\<rparr>))"

definition cancel_parcel :: "db \<Rightarrow> uuid \<Rightarrow> uuid \<Rightarrow> uuid result" where
  "cancel_parcel s parcel_id current_user =
     (case parcel_deliveries s parcel_id of
        None \<Rightarrow> (Inl NotFound, s)
      | Some parcel \<Rightarrow>
          if pd_sender_id parcel \<noteq> current_user then (Inl Forbidden, s)
          else if pd_status parcel \<notin> {PARCEL_PENDING, ASSIGNED} then (Inl InvalidTransition, s)
          else (Inr parcel_id,
                s\<lparr>parcel_deliveries :=
                    (parcel_deliveries s)(parcel_id \<mapsto> parcel\<lparr>pd_status := PARCEL_CANCELLED\<rparr>)\<rparr>))"

definition review_driver :: "db \<Rightarrow> uuid \<Rightarrow> int \<Rightarrow> uuid \<Rightarrow> review result" where
  "review_driver s parcel_id rating current_user =
     (if \<not> valid_rating rating then (Inl ValidationError, s)
      else case parcel_deliveries s parcel_id of
        None \<Rightarrow> (Inl NotFound, s)
      | Some parcel \<Rightarrow>
          if pd_sender_id parcel \<noteq> current_user then (Inl Forbidden, s)
          else if pd_status parcel \<noteq> PARCEL_DELIVERED then (Inl InvalidTransition, s)
          else case pd_driver_id parcel of
            None \<Rightarrow> (Inl InvalidTransition, s)
          | Some driver_id \<Rightarrow>
              if existing_review (reviews s) parcel_id current_user DRIVER \<noteq> None
                then (Inl AlreadyReviewed, s)
              else
                let review = \<lparr>rv_reviewer_id = current_user,
                              rv_target_type = DRIVER,
                              rv_target_id = driver_id,
                              rv_order_id = parcel_id,
                              rv_rating = rating\<rparr>;
                    s1 = s\<lparr>reviews := reviews s @ [review]\<rparr>;
                    driver_reviews = target_ratings (reviews s1) DRIVER driver_id
                in if driver_reviews = [] then (Inr review, s1)
                   else case py_truediv (sum_list driver_reviews) (int (length driver_reviews)) of
                     Inl e \<Rightarrow> (Inl e, s1)
                   | Inr avg_rating \<Rightarrow>
                       (case driver_profiles s1 driver_id of
                          None \<Rightarrow> (Inr review, s1)
                        | Some driver_profile \<Rightarrow>
                            (Inr review,
                             s1\<lparr>driver_profiles := (driver_profiles s1)
                                  (driver_id \<mapsto>
                                     driver_profile\<lparr>dp_rating_average := avg_rating\<rparr>)\<rparr>)))"

section \<open>Drivers (app/routers/drivers.py)\<close>

text \<open>
  The caller of these handlers has passed \<^verbatim>\<open>require_role([UserRole.DRIVER])\<close>;
  \<open>current_user\<close> is the id of that driver.
\<close>

definition accept_food_order :: "db \<Rightarrow> uuid \<Rightarrow> uuid \<Rightarrow> uuid result" where
  "accept_food_order s order_id current_user =
     (case food_orders s order_id of
        None \<Rightarrow> (Inl NotFound, s)
      | Some order \<Rightarrow>
          if fo_driver_id order \<noteq> None then (Inl AlreadyAssigned, s)
          else
            let order1 = order\<lparr>fo_driver_id := Some current_user\<rparr>;
                order2 = (if fo_status order1 = CONFIRMED
                          then order1\<lparr>fo_status := PREPARING\<rparr> else order1)
            in (Inr order_id, s\<lparr>food_orders := (food_orders s)(order_id \<mapsto> order2)\<rparr>))"

definition accept_parcel :: "db \<Rightarrow> uuid \<Rightarrow> uuid \<Rightarrow> uuid result" where
  "accept_parcel s parcel_id current_user =
     (case parcel_deliveries s parcel_id of
        None \<Rightarrow> (Inl NotFound, s)
      | Some parcel \<Rightarrow>
          if pd_driver_id parcel \<noteq> None then (Inl AlreadyAssigned, s)
          else (Inr parcel_id,
                s\<lparr>parcel_deliveries :=
                    (parcel_deliveries s)
                      (parcel_id \<mapsto> parcel\<lparr>pd_driver_id := Some current_user,
                                              pd_status := ASSIGNED\<rparr>)\<rparr>))"

text \<open>\<^verbatim>\<open>driver_profile.total_deliveries += 1\<close>, when the driver has a profile.\<close>

definition count_delivery :: "db \<Rightarrow> uuid \<Rightarrow> db" where
  "count_delivery s driver =
     (case driver_profiles s driver of
        None \<Rightarrow> s
      | Some driver_profile \<Rightarrow>
          s\<lparr>driver_profiles := (driver_profiles s)
               (driver \<mapsto> driver_profile\<lparr>dp_total_deliveries :=
                                              dp_total_deliveries driver_profile + 1\<rparr>)\<rparr>)"

definition update_order_status ::
  "db \<Rightarrow> uuid \<Rightarrow> OrderStatus \<Rightarrow> uuid \<Rightarrow> datetime \<Rightarrow> (uuid \<times> OrderStatus) result" where
  "update_order_status s order_id new_status current_user now =
     (case food_orders s order_id of
        None \<Rightarrow> (Inl NotFound, s)
      | Some order \<Rightarrow>
          if fo_driver_id order \<noteq> Some current_user then (Inl Forbidden, s)
          else
            let order1 = order\<lparr>fo_status := new_status\<rparr>
            in if new_status = DELIVERED
               then (Inr (order_id, new_status),
                     count_delivery
                       (s\<lparr>food_orders := (food_orders s)
                            (order_id \<mapsto> order1\<lparr>fo_delivered_at := Some now\<rparr>)\<rparr>)
                       current_user)
               else (Inr (order_id, new_status),
                     s\<lparr>food_orders := (food_orders s)(order_id \<mapsto> order1)\<rparr>))"

definition update_parcel_status ::
  "db \<Rightarrow> uuid \<Rightarrow> ParcelStatus \<Rightarrow> uuid \<Rightarrow> datetime \<Rightarrow> (uuid \<times> ParcelStatus) result" where
  "update_parcel_status s parcel_id new_status current_user now =
     (case parcel_deliveries s parcel_id of
        None \<Rightarrow> (Inl NotFound, s)
      | Some parcel \<Rightarrow>
          if pd_driver_id parcel \<noteq> Some current_user then (Inl Forbidden, s)
          else
            let parcel1 = parcel\<lparr>pd_status := new_status\<rparr>
            in if new_status = PARCEL_PICKED_UP
               then (Inr (parcel_id, new_status),
                     s\<lparr>parcel_deliveries := (parcel_deliveries s)
                          (parcel_id \<mapsto> parcel1\<lparr>pd_picked_up_at := Some now\<rparr>)\<rparr>)
               else if new_status = PARCEL_DELIVERED
               then (Inr (parcel_id, new_status),
                     count_delivery
                       (s\<lparr>parcel_deliveries := (parcel_deliveries s)
                            (parcel_id \<mapsto> parcel1\<lparr>pd_delivered_at := Some now\<rparr>)\<rparr>)
                       current_user)
               else (Inr (parcel_id, new_status),
                     s\<lparr>parcel_deliveries := (parcel_deliveries s)(parcel_id \<mapsto> parcel1)\<rparr>))"

section \<open>Quantities used to state the pricing and rating properties\<close>





text \<open>
  The specification's \<^verbatim>\<open>round(x, 2)\<close> and \<^verbatim>\<open>round(x, 1)\<close>, and its rating average
  \<^verbatim>\<open>round(mean(r1..rK), 1)\<close>.
\<close>

definition spec_round :: "nat \<Rightarrow> rat \<Rightarrow> rat" where
  "spec_round digits x = of_int (round_half_even_rat (x * 10 ^ digits)) / 10 ^ digits"

definition spec_rating_average :: "int list \<Rightarrow> rat" where
  "spec_rating_average ratings =
     spec_round 1 (of_int (sum_list ratings) / of_int (int (length ratings)))"

text \<open>The handlers' \<^verbatim>\<open>sum(r.rating for r in reviews) / len(reviews)\<close>.\<close>

definition mean_rating :: "int list \<Rightarrow> error + rat" where
  "mean_rating ratings = py_truediv (sum_list ratings) (int (length ratings))"

section \<open>Requests\<close>

text \<open>
  The requests that change jobs, reviews or profiles, and the database each leaves
  behind (whether the handler answered or raised). \<open>review_keys\<close> lists the
  (reviewer, job, target type) triple of every review.
\<close>

datatype request =
    CreateFoodOrder FoodOrderCreate uuid uuid
  | CancelOrder uuid uuid
  | ReviewRestaurant uuid int uuid
  | CreateParcelDelivery ParcelDeliveryCreate uuid uuid
  | CancelParcel uuid uuid
  | ReviewDriver uuid int uuid
  | AcceptFoodOrder uuid uuid
  | AcceptParcel uuid uuid
  | UpdateOrderStatus uuid OrderStatus uuid datetime
  | UpdateParcelStatus uuid ParcelStatus uuid datetime

fun handle ::
  "(decimal \<Rightarrow> decimal \<Rightarrow> decimal \<Rightarrow> decimal \<Rightarrow> error + decimal) \<Rightarrow> db \<Rightarrow> request \<Rightarrow> db" where
  "handle cd s (CreateFoodOrder order_data u new_id) = snd (create_food_order s order_data u new_id)"
| "handle cd s (CancelOrder order_id u) = snd (cancel_order s order_id u)"
| "handle cd s (ReviewRestaurant order_id rating u) = snd (review_restaurant s order_id rating u)"
| "handle cd s (CreateParcelDelivery parcel_data u new_id) =
     snd (create_parcel_delivery cd s parcel_data u new_id)"
| "handle cd s (CancelParcel parcel_id u) = snd (cancel_parcel s parcel_id u)"
| "handle cd s (ReviewDriver parcel_id rating u) = snd (review_driver s parcel_id rating u)"
| "handle cd s (AcceptFoodOrder order_id u) = snd (accept_food_order s order_id u)"
| "handle cd s (AcceptParcel parcel_id u) = snd (accept_parcel s parcel_id u)"
| "handle cd s (UpdateOrderStatus order_id new_status u now) =
     snd (update_order_status s order_id new_status u now)"
| "handle cd s (UpdateParcelStatus parcel_id new_status u now) =
     snd (update_parcel_status s parcel_id new_status u now)"

definition review_keys :: "review list \<Rightarrow> (uuid \<times> uuid \<times> TargetType) list" where
  "review_keys rs = map (\<lambda>r. (rv_reviewer_id r, rv_order_id r, rv_target_type r)) rs"

section \<open>A sample database\<close>

text \<open>
  One restaurant with five menu items (item 4 is unavailable, item 5 belongs to another
  restaurant), three food orders of customer 1, three parcels of sender 2, and driver 7.
\<close>

definition example_db :: db where
  "example_db =
     \<lparr>restaurants = [1 \<mapsto> \<lparr>r_is_active = True, r_rating_average = 0, r_delivery_fee = Decimal 399 (- 2)\<rparr>],
      menu_items = [1 \<mapsto> \<lparr>mi_restaurant_id = 1, mi_price = Decimal 1000 (- 2), mi_is_available = True\<rparr>,
                    2 \<mapsto> \<lparr>mi_restaurant_id = 1, mi_price = Decimal 550 (- 2), mi_is_available = True\<rparr>,
                    3 \<mapsto> \<lparr>mi_restaurant_id = 1, mi_price = Decimal 10 (- 2), mi_is_available = True\<rparr>,
                    4 \<mapsto> \<lparr>mi_restaurant_id = 1, mi_price = Decimal 700 (- 2), mi_is_available = False\<rparr>,
                    5 \<mapsto> \<lparr>mi_restaurant_id = 2, mi_price = Decimal 900 (- 2), mi_is_available = True\<rparr>],
      food_orders = [10 \<mapsto> \<lparr>fo_customer_id = 1, fo_restaurant_id = 1, fo_driver_id = None,
                             fo_status = PENDING, fo_subtotal = Decimal 1000 (- 2),
                             fo_delivery_fee = Decimal 399 (- 2), fo_tax = Decimal 80 (- 2),
                             fo_total_amount = Decimal 1479 (- 2), fo_delivered_at = None\<rparr>,
                     11 \<mapsto> \<lparr>fo_customer_id = 1, fo_restaurant_id = 1, fo_driver_id = Some 7,
                             fo_status = PICKED_UP, fo_subtotal = Decimal 1000 (- 2),
                             fo_delivery_fee = Decimal 399 (- 2), fo_tax = Decimal 80 (- 2),
                             fo_total_amount = Decimal 1479 (- 2), fo_delivered_at = None\<rparr>,
                     12 \<mapsto> \<lparr>fo_customer_id = 1, fo_restaurant_id = 1, fo_driver_id = Some 7,
                             fo_status = DELIVERED, fo_subtotal = Decimal 1000 (- 2),
                             fo_delivery_fee = Decimal 399 (- 2), fo_tax = Decimal 80 (- 2),
                             fo_total_amount = Decimal 1479 (- 2), fo_delivered_at = Some 100\<rparr>],
      order_items = [],
      parcel_deliveries =
        [20 \<mapsto> \<lparr>pd_sender_id = 2, pd_driver_id = None,
                  pd_pickup_latitude = None, pd_pickup_longitude = None,
                  pd_delivery_latitude = None, pd_delivery_longitude = None,
                  pd_parcel_size = SMALL, pd_status = PARCEL_PENDING,
                  pd_delivery_fee = Decimal 15000 (- 3), pd_estimated_distance_km = Decimal 50 (- 1),
                  pd_picked_up_at = None, pd_delivered_at = None\<rparr>,
         21 \<mapsto> \<lparr>pd_sender_id = 2, pd_driver_id = None,
                  pd_pickup_latitude = None, pd_pickup_longitude = None,
                  pd_delivery_latitude = None, pd_delivery_longitude = None,
                  pd_parcel_size = SMALL, pd_status = PARCEL_CANCELLED,
                  pd_delivery_fee = Decimal 15000 (- 3), pd_estimated_distance_km = Decimal 50 (- 1),
                  pd_picked_up_at = None, pd_delivered_at = None\<rparr>,
         22 \<mapsto> \<lparr>pd_sender_id = 2, pd_driver_id = Some 7,
                  pd_pickup_latitude = None, pd_pickup_longitude = None,
                  pd_delivery_latitude = None, pd_delivery_longitude = None,
                  pd_parcel_size = SMALL, pd_status = PARCEL_DELIVERED,
                  pd_delivery_fee = Decimal 15000 (- 3), pd_estimated_distance_km = Decimal 50 (- 1),
                  pd_picked_up_at = Some 90, pd_delivered_at = Some 100\<rparr>],
      driver_profiles = [7 \<mapsto> \<lparr>dp_rating_average = 0, dp_total_deliveries = 0\<rparr>],
      reviews = []\<rparr>"

text \<open>
  The sample database after customers 3 and 4 have rated restaurant 1 with 4 and 5 for
  two earlier orders.
\<close>

definition reviewed_db :: db where
  "reviewed_db =
     example_db
       \<lparr>reviews :=
          [\<lparr>rv_reviewer_id = 3, rv_target_type = RESTAURANT, rv_target_id = 1,
            rv_order_id = 40, rv_rating = 4\<rparr>,
           \<lparr>rv_reviewer_id = 4, rv_target_type = RESTAURANT, rv_target_id = 1,
            rv_order_id = 41, rv_rating = 5\<rparr>]\<rparr>"

section \<open>Properties of the decimal arithmetic\<close>

lemma ndigits_pos: "0 < ndigits n"
  by (subst ndigits.simps) simp

lemma ndigits_le: "0 < k \<Longrightarrow> ndigits n \<le> k \<longleftrightarrow> n < 10 ^ k"
proof (induction n arbitrary: k rule: ndigits.induct)
  case (1 n)
  show ?case
  proof (cases "n < 10")
    case True
    have "(10::nat) ^ 1 \<le> 10 ^ k" using 1(2) by (intro power_increasing) auto
    with True 1(2) show ?thesis by (simp add: ndigits.simps[of n])
  next
    case False
    obtain j where j: "k = Suc j" using 1(2) by (cases k) auto
    show ?thesis
    proof (cases j)
      case 0
      with False j ndigits_pos[of "n div 10"] show ?thesis by (simp add: ndigits.simps[of n])
    next
      case (Suc i)
      have "ndigits (n div 10) \<le> j \<longleftrightarrow> n div 10 < 10 ^ j"
        using 1(1)[OF False, of j] Suc by simp
      moreover have "n div 10 < 10 ^ j \<longleftrightarrow> n < 10 ^ Suc j"
        by (simp add: div_less_iff_less_mult mult.commute)
      ultimately show ?thesis using False j by (simp add: ndigits.simps[of n])
    qed
  qed
qed

lemma dec_fix_id: "\<bar>coef d\<bar> < 10 ^ 28 \<Longrightarrow> dec_fix d = d"
proof -
  assume "\<bar>coef d\<bar> < 10 ^ 28"
  then have "nat \<bar>coef d\<bar> < 10 ^ 28" by (simp add: nat_less_iff)
  then have "ndigits (nat \<bar>coef d\<bar>) \<le> context_prec"
    by (simp add: ndigits_le context_prec_def)
  then show ?thesis by (simp add: dec_fix_def Let_def)
qed

lemma dec_mul_exact:
  "\<bar>coef a * coef b\<bar> < 10 ^ 28 \<Longrightarrow>
   dec_mul a b = \<lparr>coef = coef a * coef b, expo = expo a + expo b\<rparr>"
  by (simp add: dec_mul_def dec_fix_id)

lemma dec_add_exact:
  "\<bar>coef a * 10 ^ nat (expo a - min (expo a) (expo b))
     + coef b * 10 ^ nat (expo b - min (expo a) (expo b))\<bar> < 10 ^ 28 \<Longrightarrow>
   dec_add a b = \<lparr>coef = coef a * 10 ^ nat (expo a - min (expo a) (expo b))
                        + coef b * 10 ^ nat (expo b - min (expo a) (expo b)),
                 expo = min (expo a) (expo b)\<rparr>"
  by (simp add: dec_add_def Let_def dec_fix_id)






lemma dec_val_zero_iff: "dec_val v = 0 \<longleftrightarrow> coef v = 0"
  by (simp add: dec_val_def)

section \<open>Parcel fee\<close>





section \<open>Cancellation\<close>

text \<open>
  C7. Cancelling a food order succeeds only for its customer and only from
  \<open>PENDING\<close> or \<open>CONFIRMED\<close>; cancelling a parcel succeeds only for its sender and only
  from \<open>PARCEL_PENDING\<close> or \<open>ASSIGNED\<close>. On success only the status changes, to
  cancelled. For the requester, any other status fails with \<open>InvalidTransition\<close>, and every
  failure leaves the whole database unchanged.
\<close>

theorem cancel_guard:
  "(cancel_order s order_id u = (Inr r, s') \<longrightarrow>
      (\<exists>order. food_orders s order_id = Some order \<and> fo_customer_id order = u
         \<and> fo_status order \<in> {PENDING, CONFIRMED} \<and> r = order_id
         \<and> s' = s\<lparr>food_orders := (food_orders s)(order_id \<mapsto> order\<lparr>fo_status := CANCELLED\<rparr>)\<rparr>))
   \<and> (food_orders s order_id = Some order \<and> fo_customer_id order = u \<longrightarrow>
      (if fo_status order \<in> {PENDING, CONFIRMED}
       then cancel_order s order_id u =
              (Inr order_id,
               s\<lparr>food_orders := (food_orders s)(order_id \<mapsto> order\<lparr>fo_status := CANCELLED\<rparr>)\<rparr>)
       else cancel_order s order_id u = (Inl InvalidTransition, s)))
   \<and> (cancel_order s order_id u = (Inl e, s') \<longrightarrow> s' = s)
   \<and> (cancel_parcel s parcel_id v = (Inr r, s') \<longrightarrow>
      (\<exists>parcel. parcel_deliveries s parcel_id = Some parcel \<and> pd_sender_id parcel = v
         \<and> pd_status parcel \<in> {PARCEL_PENDING, ASSIGNED} \<and> r = parcel_id
         \<and> s' = s\<lparr>parcel_deliveries :=
                       (parcel_deliveries s)(parcel_id \<mapsto> parcel\<lparr>pd_status := PARCEL_CANCELLED\<rparr>)\<rparr>))
   \<and> (parcel_deliveries s parcel_id = Some parcel \<and> pd_sender_id parcel = v \<longrightarrow>
      (if pd_status parcel \<in> {PARCEL_PENDING, ASSIGNED}
       then cancel_parcel s parcel_id v =
              (Inr parcel_id,
               s\<lparr>parcel_deliveries :=
                   (parcel_deliveries s)(parcel_id \<mapsto> parcel\<lparr>pd_status := PARCEL_CANCELLED\<rparr>)\<rparr>)
       else cancel_parcel s parcel_id v = (Inl InvalidTransition, s)))
   \<and> (cancel_parcel s parcel_id v = (Inl e, s') \<longrightarrow> s' = s)"
  by (auto simp: cancel_order_def cancel_parcel_def split: option.splits if_splits)


theorem cancel_guard_witness:
  "fst (cancel_order example_db 10 1) = Inr 10
   \<and> map_option fo_status (food_orders (snd (cancel_order example_db 10 1)) 10) = Some CANCELLED
   \<and> cancel_order example_db 12 1 = (Inl InvalidTransition, example_db)
   \<and> fst (cancel_parcel example_db 20 2) = Inr 20
   \<and> map_option pd_status (parcel_deliveries (snd (cancel_parcel example_db 20 2)) 20)
       = Some PARCEL_CANCELLED
   \<and> cancel_parcel example_db 22 2 = (Inl InvalidTransition, example_db)"
proof -
  let ?o10 = "the (food_orders example_db 10)" and ?o12 = "the (food_orders example_db 12)"
  let ?p20 = "the (parcel_deliveries example_db 20)" and ?p22 = "the (parcel_deliveries example_db 22)"
  have o10: "food_orders example_db 10 = Some ?o10 \<and> fo_customer_id ?o10 = 1"
    and s10: "fo_status ?o10 \<in> {PENDING, CONFIRMED}"
    and o12: "food_orders example_db 12 = Some ?o12 \<and> fo_customer_id ?o12 = 1"
    and s12: "fo_status ?o12 \<notin> {PENDING, CONFIRMED}"
    and p20: "parcel_deliveries example_db 20 = Some ?p20 \<and> pd_sender_id ?p20 = 2"
    and t20: "pd_status ?p20 \<in> {PARCEL_PENDING, ASSIGNED}"
    and p22: "parcel_deliveries example_db 22 = Some ?p22 \<and> pd_sender_id ?p22 = 2"
    and t22: "pd_status ?p22 \<notin> {PARCEL_PENDING, ASSIGNED}"
    by (simp_all add: example_db_def)
  note g1 = cancel_guard [where s = example_db and order_id = 10 and u = 1 and order = ?o10
      and parcel_id = 20 and v = 2 and parcel = ?p20]
  note g2 = cancel_guard [where s = example_db and order_id = 12 and u = 1 and order = ?o12
      and parcel_id = 22 and v = 2 and parcel = ?p22]
  have a: "cancel_order example_db 10 1 =
      (Inr 10, example_db\<lparr>food_orders := (food_orders example_db)(10 \<mapsto> ?o10\<lparr>fo_status := CANCELLED\<rparr>)\<rparr>)"
    using g1 [THEN conjunct2, THEN conjunct1, THEN mp, OF o10] s10 by (simp only: if_True)
  have b: "cancel_order example_db 12 1 = (Inl InvalidTransition, example_db)"
    using g2 [THEN conjunct2, THEN conjunct1, THEN mp, OF o12] s12 by (simp only: if_False)
  have c: "cancel_parcel example_db 20 2 =
      (Inr 20, example_db\<lparr>parcel_deliveries :=
          (parcel_deliveries example_db)(20 \<mapsto> ?p20\<lparr>pd_status := PARCEL_CANCELLED\<rparr>)\<rparr>)"
    using g1 [THEN conjunct2, THEN conjunct2, THEN conjunct2, THEN conjunct2, THEN conjunct1,
              THEN mp, OF p20] t20
    by (simp only: if_True)
  have d: "cancel_parcel example_db 22 2 = (Inl InvalidTransition, example_db)"
    using g2 [THEN conjunct2, THEN conjunct2, THEN conjunct2, THEN conjunct2, THEN conjunct1,
              THEN mp, OF p22] t22
    by (simp only: if_False)
  show ?thesis unfolding a b c d by simp
qed

section \<open>Accepting a job\<close>

text \<open>
  C1. \<open>accept_food_order\<close> and \<open>accept_parcel\<close> test only that no driver is set. On the
  sample database driver 7 accepts order 10, which is \<open>PENDING\<close> (it stays \<open>PENDING\<close>), and
  parcel 21, which is \<open>PARCEL_CANCELLED\<close> (it becomes \<open>ASSIGNED\<close>).
\<close>

theorem accept_ignores_status:
  "fst (accept_food_order example_db 10 7) = Inr 10
   \<and> map_option fo_status (food_orders example_db 10) = Some PENDING
   \<and> map_option fo_driver_id (food_orders (snd (accept_food_order example_db 10 7)) 10) = Some (Some 7)
   \<and> map_option fo_status (food_orders (snd (accept_food_order example_db 10 7)) 10) = Some PENDING
   \<and> fst (accept_parcel example_db 21 7) = Inr 21
   \<and> map_option pd_status (parcel_deliveries example_db 21) = Some PARCEL_CANCELLED
   \<and> map_option pd_driver_id (parcel_deliveries (snd (accept_parcel example_db 21 7)) 21) = Some (Some 7)
   \<and> map_option pd_status (parcel_deliveries (snd (accept_parcel example_db 21 7)) 21) = Some ASSIGNED"
  by (simp add: accept_food_order_def accept_parcel_def example_db_def)

section \<open>Counting deliveries\<close>

text \<open>
  C4. Every status update to delivered adds one to the driver's \<open>total_deliveries\<close>:
  marking order 11 delivered twice takes the counter of driver 7 from 0 to 1 and then
  to 2, and marking the already delivered parcel 22 delivered again adds one as well.
\<close>

theorem delivered_counted_on_every_call:
  "map_option dp_total_deliveries (driver_profiles example_db 7) = Some 0
   \<and> fst (update_order_status example_db 11 DELIVERED 7 100) = Inr (11, DELIVERED)
   \<and> map_option dp_total_deliveries
        (driver_profiles (snd (update_order_status example_db 11 DELIVERED 7 100)) 7) = Some 1
   \<and> fst (update_order_status (snd (update_order_status example_db 11 DELIVERED 7 100)) 11 DELIVERED 7 101)
        = Inr (11, DELIVERED)
   \<and> map_option dp_total_deliveries
        (driver_profiles
           (snd (update_order_status (snd (update_order_status example_db 11 DELIVERED 7 100))
                   11 DELIVERED 7 101)) 7) = Some 2
   \<and> map_option dp_total_deliveries
        (driver_profiles (snd (update_parcel_status example_db 22 PARCEL_DELIVERED 7 101)) 7) = Some 1"
  by (simp add: update_order_status_def update_parcel_status_def count_delivery_def example_db_def)


section \<open>Default distance\<close>

lemma default_fee_value:
  "dec_val (calculate_delivery_fee (Decimal 50 (- 1)) sz)
     = 15 * (case sz of SMALL \<Rightarrow> 1 | MEDIUM \<Rightarrow> 3 / 2 | LARGE \<Rightarrow> 2)"
  by (cases sz)
     (simp_all add: calculate_delivery_fee_def size_multiplier_def dec_mul_exact dec_add_exact
        dec_val_def)

text \<open>
  C10. When at least one of the four coordinates of a parcel request is \<^verbatim>\<open>None\<close> or
  zero, the parcel is created with estimated distance 5.0 and with the fee of 5.0 km,
  which is 15 times the size multiplier, whatever the haversine function would return.
\<close>

theorem default_distance_when_coordinate_falsy:
  assumes c: "c \<in> {pickup_latitude pd, pickup_longitude pd,
                     delivery_latitude pd, delivery_longitude pd}"
    and falsy: "c = None \<or> (\<exists>v. c = Some v \<and> dec_val v = 0)"
    and fresh: "new_id \<notin> dom (parcel_deliveries s)"
  shows "\<exists>parcel.
           create_parcel_delivery calculate_distance s pd u new_id
             = (Inr parcel, s\<lparr>parcel_deliveries := (parcel_deliveries s)(new_id \<mapsto> parcel)\<rparr>)
           \<and> pd_estimated_distance_km parcel = Decimal 50 (- 1)
           \<and> pd_delivery_fee parcel = calculate_delivery_fee (Decimal 50 (- 1)) (parcel_size pd)
           \<and> dec_val (pd_delivery_fee parcel)
               = 15 * (case parcel_size pd of SMALL \<Rightarrow> 1 | MEDIUM \<Rightarrow> 3 / 2 | LARGE \<Rightarrow> 2)"
proof -
  have "\<not> truthy c"
    using falsy by (auto simp: truthy_def dec_val_zero_iff)
  with c have na: "list_all truthy [pickup_latitude pd, pickup_longitude pd,
                                    delivery_latitude pd, delivery_longitude pd] = False"
    by auto
  show ?thesis
    using fresh unfolding create_parcel_delivery_def na
    by (simp add: Let_def default_fee_value)
qed

theorem default_distance_when_coordinate_falsy_witness:
  "Some (Decimal 0 (- 1)) \<in> {Some (Decimal 0 (- 1)), Some (Decimal 3682 (- 2)),
                               Some (Decimal (- 13) (- 1)), Some (Decimal 3681 (- 2))}
   \<and> dec_val (Decimal 0 (- 1)) = 0
   \<and> 30 \<notin> dom (parcel_deliveries example_db)
   \<and> (\<exists>parcel.
         create_parcel_delivery (\<lambda>a b c d. Inr (Decimal 1445 (- 1))) example_db
           \<lparr>pickup_latitude = Some (Decimal 0 (- 1)), pickup_longitude = Some (Decimal 3682 (- 2)),
            delivery_latitude = Some (Decimal (- 13) (- 1)),
            delivery_longitude = Some (Decimal 3681 (- 2)), parcel_size = LARGE\<rparr> 2 30
           = (Inr parcel,
              example_db\<lparr>parcel_deliveries := (parcel_deliveries example_db)(30 \<mapsto> parcel)\<rparr>)
         \<and> pd_estimated_distance_km parcel = Decimal 50 (- 1)
         \<and> dec_val (pd_delivery_fee parcel) = 30)"
proof -
  let ?pd = "\<lparr>pickup_latitude = Some (Decimal 0 (- 1)), pickup_longitude = Some (Decimal 3682 (- 2)),
            delivery_latitude = Some (Decimal (- 13) (- 1)),
            delivery_longitude = Some (Decimal 3681 (- 2)), parcel_size = LARGE\<rparr>"
  have c: "Some (Decimal 0 (- 1)) \<in> {pickup_latitude ?pd, pickup_longitude ?pd,
                     delivery_latitude ?pd, delivery_longitude ?pd}"
    by simp
  have z: "dec_val (Decimal 0 (- 1)) = 0" by (simp add: dec_val_def)
  then have falsy: "Some (Decimal 0 (- 1)) = None
      \<or> (\<exists>v. Some (Decimal 0 (- 1)) = Some v \<and> dec_val v = 0)"
    by simp
  have fresh: "30 \<notin> dom (parcel_deliveries example_db)"
    by (simp add: example_db_def)
  from default_distance_when_coordinate_falsy [OF c falsy fresh,
      of "\<lambda>a b c d. Inr (Decimal 1445 (- 1))" 2]
  obtain parcel where
    "create_parcel_delivery (\<lambda>a b c d. Inr (Decimal 1445 (- 1))) example_db ?pd 2 30
       = (Inr parcel,
          example_db\<lparr>parcel_deliveries := (parcel_deliveries example_db)(30 \<mapsto> parcel)\<rparr>)"
    "pd_estimated_distance_km parcel = Decimal 50 (- 1)"
    "dec_val (pd_delivery_fee parcel) = 30"
    by auto
  with z fresh show ?thesis by blast
qed


section \<open>The driver of a job\<close>

lemma count_delivery_jobs [simp]:
  "food_orders (count_delivery s d) = food_orders s"
  "parcel_deliveries (count_delivery s d) = parcel_deliveries s"
  by (simp_all add: count_delivery_def split: option.splits)

lemma create_food_order_jobs:
  "food_orders s i = Some order \<Longrightarrow>
     food_orders (snd (create_food_order s order_data u new_id)) i = Some order"
  "parcel_deliveries (snd (create_food_order s order_data u new_id)) = parcel_deliveries s"
  by (auto simp: create_food_order_def Let_def split: option.splits sum.splits prod.splits)

lemma create_parcel_jobs:
  "parcel_deliveries s i = Some parcel \<Longrightarrow>
     parcel_deliveries (snd (create_parcel_delivery cd s parcel_data u new_id)) i = Some parcel"
  "food_orders (snd (create_parcel_delivery cd s parcel_data u new_id)) = food_orders s"
  by (auto simp: create_parcel_delivery_def Let_def split: option.splits sum.splits prod.splits)

lemma review_restaurant_jobs:
  "food_orders (snd (review_restaurant s order_id rating u)) = food_orders s"
  "parcel_deliveries (snd (review_restaurant s order_id rating u)) = parcel_deliveries s"
  by (auto simp: review_restaurant_def Let_def split: option.splits sum.splits)

lemma review_driver_jobs:
  "food_orders (snd (review_driver s parcel_id rating u)) = food_orders s"
  "parcel_deliveries (snd (review_driver s parcel_id rating u)) = parcel_deliveries s"
  by (auto simp: review_driver_def Let_def split: option.splits sum.splits)

lemma order_driver_step:
  assumes "food_orders s i = Some order"
  shows "\<exists>order'. food_orders (handle cd s rq) i = Some order'
           \<and> (fo_driver_id order' = fo_driver_id order
                \<or> (fo_driver_id order = None
                    \<and> (\<exists>d. rq = AcceptFoodOrder i d \<and> fo_driver_id order' = Some d)))"
proof (cases rq)
  case (CreateFoodOrder order_data u new_id)
  then show ?thesis using assms by (simp add: create_food_order_jobs)
next
  case (CancelOrder order_id u)
  then show ?thesis using assms
    by (auto simp: cancel_order_def split: option.splits)
next
  case (ReviewRestaurant order_id rating u)
  then show ?thesis using assms by (simp add: review_restaurant_jobs)
next
  case (CreateParcelDelivery parcel_data u new_id)
  then show ?thesis using assms by (simp add: create_parcel_jobs)
next
  case (CancelParcel parcel_id u)
  then show ?thesis using assms
    by (auto simp: cancel_parcel_def split: option.splits)
next
  case (ReviewDriver parcel_id rating u)
  then show ?thesis using assms by (simp add: review_driver_jobs)
next
  case (AcceptFoodOrder order_id u)
  then show ?thesis using assms
    by (auto simp: accept_food_order_def Let_def split: option.splits)
next
  case (AcceptParcel parcel_id u)
  then show ?thesis using assms
    by (auto simp: accept_parcel_def split: option.splits)
next
  case (UpdateOrderStatus order_id new_status u now)
  then show ?thesis using assms
    by (auto simp: update_order_status_def Let_def split: option.splits)
next
  case (UpdateParcelStatus parcel_id new_status u now)
  then show ?thesis using assms
    by (auto simp: update_parcel_status_def Let_def split: option.splits)
qed

lemma parcel_driver_step:
  assumes "parcel_deliveries s i = Some parcel"
  shows "\<exists>parcel'. parcel_deliveries (handle cd s rq) i = Some parcel'
           \<and> (pd_driver_id parcel' = pd_driver_id parcel
                \<or> (pd_driver_id parcel = None
                    \<and> (\<exists>d. rq = AcceptParcel i d \<and> pd_driver_id parcel' = Some d)))"
proof (cases rq)
  case (CreateFoodOrder order_data u new_id)
  then show ?thesis using assms by (simp add: create_food_order_jobs)
next
  case (CancelOrder order_id u)
  then show ?thesis using assms
    by (auto simp: cancel_order_def split: option.splits)
next
  case (ReviewRestaurant order_id rating u)
  then show ?thesis using assms by (simp add: review_restaurant_jobs)
next
  case (CreateParcelDelivery parcel_data u new_id)
  then show ?thesis using assms by (simp add: create_parcel_jobs)
next
  case (CancelParcel parcel_id u)
  then show ?thesis using assms
    by (auto simp: cancel_parcel_def split: option.splits)
next
  case (ReviewDriver parcel_id rating u)
  then show ?thesis using assms by (simp add: review_driver_jobs)
next
  case (AcceptFoodOrder order_id u)
  then show ?thesis using assms
    by (auto simp: accept_food_order_def Let_def split: option.splits)
next
  case (AcceptParcel parcel_id u)
  then show ?thesis using assms
    by (auto simp: accept_parcel_def split: option.splits)
next
  case (UpdateOrderStatus order_id new_status u now)
  then show ?thesis using assms
    by (auto simp: update_order_status_def Let_def split: option.splits)
next
  case (UpdateParcelStatus parcel_id new_status u now)
  then show ?thesis using assms
    by (auto simp: update_parcel_status_def Let_def split: option.splits)
qed

lemma order_driver_kept:
  "food_orders s i = Some order \<Longrightarrow> fo_driver_id order = Some d \<Longrightarrow>
     \<exists>order'. food_orders (foldl (handle cd) s rqs) i = Some order' \<and> fo_driver_id order' = Some d"
proof (induction rqs arbitrary: s order)
  case Nil
  then show ?case by simp
next
  case (Cons rq rqs)
  from order_driver_step [OF Cons.prems(1), of cd rq] Cons.prems(2)
  obtain order' where "food_orders (handle cd s rq) i = Some order'" "fo_driver_id order' = Some d"
    by auto
  from Cons.IH [OF this] show ?case by simp
qed

lemma parcel_driver_kept:
  "parcel_deliveries s i = Some parcel \<Longrightarrow> pd_driver_id parcel = Some d \<Longrightarrow>
     \<exists>parcel'. parcel_deliveries (foldl (handle cd) s rqs) i = Some parcel'
        \<and> pd_driver_id parcel' = Some d"
proof (induction rqs arbitrary: s parcel)
  case Nil
  then show ?case by simp
next
  case (Cons rq rqs)
  from parcel_driver_step [OF Cons.prems(1), of cd rq] Cons.prems(2)
  obtain parcel' where "parcel_deliveries (handle cd s rq) i = Some parcel'"
    "pd_driver_id parcel' = Some d"
    by auto
  from Cons.IH [OF this] show ?case by simp
qed


text \<open>
  C2. Every request leaves the driver of an existing food order or parcel as it was,
  or sets it from unset to the accepting driver, which only the accept request of that
  job does. Accepting a job whose driver is set fails with \<open>AlreadyAssigned\<close> and leaves
  the database unchanged, and after any sequence of requests (cancellation included) a
  driver once set is still the driver.
\<close>

theorem driver_assigned_at_most_once:
  "(food_orders s i = Some order \<longrightarrow>
      (\<exists>order'. food_orders (handle cd s rq) i = Some order'
         \<and> (fo_driver_id order' = fo_driver_id order
              \<or> (fo_driver_id order = None
                  \<and> (\<exists>d. rq = AcceptFoodOrder i d \<and> fo_driver_id order' = Some d)))))
   \<and> (parcel_deliveries s j = Some parcel \<longrightarrow>
      (\<exists>parcel'. parcel_deliveries (handle cd s rq) j = Some parcel'
         \<and> (pd_driver_id parcel' = pd_driver_id parcel
              \<or> (pd_driver_id parcel = None
                  \<and> (\<exists>d. rq = AcceptParcel j d \<and> pd_driver_id parcel' = Some d)))))
   \<and> (food_orders s i = Some order \<and> fo_driver_id order = Some d \<longrightarrow>
        accept_food_order s i d' = (Inl AlreadyAssigned, s)
        \<and> (\<exists>order'. food_orders (foldl (handle cd) s rqs) i = Some order'
               \<and> fo_driver_id order' = Some d))
   \<and> (parcel_deliveries s j = Some parcel \<and> pd_driver_id parcel = Some d \<longrightarrow>
        accept_parcel s j d' = (Inl AlreadyAssigned, s)
        \<and> (\<exists>parcel'. parcel_deliveries (foldl (handle cd) s rqs) j = Some parcel'
               \<and> pd_driver_id parcel' = Some d))"
proof (intro conjI impI)
  assume "food_orders s i = Some order"
  then show "\<exists>order'. food_orders (handle cd s rq) i = Some order'
         \<and> (fo_driver_id order' = fo_driver_id order
              \<or> (fo_driver_id order = None
                  \<and> (\<exists>d. rq = AcceptFoodOrder i d \<and> fo_driver_id order' = Some d)))"
    by (rule order_driver_step)
next
  assume "parcel_deliveries s j = Some parcel"
  then show "\<exists>parcel'. parcel_deliveries (handle cd s rq) j = Some parcel'
         \<and> (pd_driver_id parcel' = pd_driver_id parcel
              \<or> (pd_driver_id parcel = None
                  \<and> (\<exists>d. rq = AcceptParcel j d \<and> pd_driver_id parcel' = Some d)))"
    by (rule parcel_driver_step)
next
  assume "food_orders s i = Some order \<and> fo_driver_id order = Some d"
  then show "accept_food_order s i d' = (Inl AlreadyAssigned, s)"
    by (simp add: accept_food_order_def)
next
  assume "food_orders s i = Some order \<and> fo_driver_id order = Some d"
  then show "\<exists>order'. food_orders (foldl (handle cd) s rqs) i = Some order'
               \<and> fo_driver_id order' = Some d"
    by (auto intro: order_driver_kept)
next
  assume "parcel_deliveries s j = Some parcel \<and> pd_driver_id parcel = Some d"
  then show "accept_parcel s j d' = (Inl AlreadyAssigned, s)"
    by (simp add: accept_parcel_def)
next
  assume "parcel_deliveries s j = Some parcel \<and> pd_driver_id parcel = Some d"
  then show "\<exists>parcel'. parcel_deliveries (foldl (handle cd) s rqs) j = Some parcel'
               \<and> pd_driver_id parcel' = Some d"
    by (auto intro: parcel_driver_kept)
qed

theorem driver_assigned_at_most_once_witness:
  "map_option fo_driver_id (food_orders example_db 11) = Some (Some 7)
   \<and> accept_food_order example_db 11 8 = (Inl AlreadyAssigned, example_db)
   \<and> map_option fo_driver_id
        (food_orders
           (foldl (handle (\<lambda>a b c d. Inl ValueError)) example_db
              [CancelOrder 11 1, AcceptFoodOrder 11 8, UpdateOrderStatus 11 DELIVERED 7 5]) 11)
       = Some (Some 7)
   \<and> map_option pd_driver_id (parcel_deliveries example_db 22) = Some (Some 7)
   \<and> accept_parcel example_db 22 8 = (Inl AlreadyAssigned, example_db)
   \<and> map_option pd_driver_id
        (parcel_deliveries
           (foldl (handle (\<lambda>a b c d. Inl ValueError)) example_db
              [CancelParcel 22 2, AcceptParcel 22 8, UpdateParcelStatus 22 PARCEL_CANCELLED 7 5]) 22)
       = Some (Some 7)"
proof -
  let ?o = "the (food_orders example_db 11)" and ?p = "the (parcel_deliveries example_db 22)"
  have o: "food_orders example_db 11 = Some ?o \<and> fo_driver_id ?o = Some 7"
    and p: "parcel_deliveries example_db 22 = Some ?p \<and> pd_driver_id ?p = Some 7"
    by (simp_all add: example_db_def)
  note t = driver_assigned_at_most_once [where s = example_db and i = 11 and order = ?o
      and j = 22 and parcel = ?p and d = 7 and d' = 8
      and cd = "\<lambda>a b c d. Inl ValueError"]
  note a = t [where rqs = "[CancelOrder 11 1, AcceptFoodOrder 11 8, UpdateOrderStatus 11 DELIVERED 7 5]",
      THEN conjunct2, THEN conjunct2, THEN conjunct1, THEN mp, OF o]
  note b = t [where rqs = "[CancelParcel 22 2, AcceptParcel 22 8, UpdateParcelStatus 22 PARCEL_CANCELLED 7 5]",
      THEN conjunct2, THEN conjunct2, THEN conjunct2, THEN mp, OF p]
  from a obtain order' where
    "food_orders (foldl (handle (\<lambda>a b c d. Inl ValueError)) example_db
        [CancelOrder 11 1, AcceptFoodOrder 11 8, UpdateOrderStatus 11 DELIVERED 7 5]) 11 = Some order'"
    "fo_driver_id order' = Some 7"
    by blast
  then have a2: "map_option fo_driver_id
        (food_orders
           (foldl (handle (\<lambda>a b c d. Inl ValueError)) example_db
              [CancelOrder 11 1, AcceptFoodOrder 11 8, UpdateOrderStatus 11 DELIVERED 7 5]) 11)
       = Some (Some 7)"
    by (simp only: option.map)
  from b obtain parcel' where
    "parcel_deliveries (foldl (handle (\<lambda>a b c d. Inl ValueError)) example_db
        [CancelParcel 22 2, AcceptParcel 22 8, UpdateParcelStatus 22 PARCEL_CANCELLED 7 5]) 22
       = Some parcel'"
    "pd_driver_id parcel' = Some 7"
    by blast
  then have b2: "map_option pd_driver_id
        (parcel_deliveries
           (foldl (handle (\<lambda>a b c d. Inl ValueError)) example_db
              [CancelParcel 22 2, AcceptParcel 22 8, UpdateParcelStatus 22 PARCEL_CANCELLED 7 5]) 22)
       = Some (Some 7)"
    by (simp only: option.map)
  have o2: "map_option fo_driver_id (food_orders example_db 11) = Some (Some 7)"
    and p2: "map_option pd_driver_id (parcel_deliveries example_db 22) = Some (Some 7)"
    by (simp_all add: example_db_def)
  from a b a2 b2 o2 p2 show ?thesis by blast
qed


section \<open>Reviews\<close>

lemma existing_review_None_iff:
  "existing_review rs order_id u tt = None \<longleftrightarrow> (u, order_id, tt) \<notin> set (review_keys rs)"
proof -
  let ?P = "\<lambda>r. rv_order_id r = order_id \<and> rv_reviewer_id r = u \<and> rv_target_type r = tt"
  have "existing_review rs order_id u tt = None \<longleftrightarrow> filter ?P rs = []"
    by (simp add: existing_review_def split: list.splits)
  also have "\<dots> \<longleftrightarrow> (\<forall>r \<in> set rs. \<not> ?P r)"
    by (simp add: filter_empty_conv)
  also have "\<dots> \<longleftrightarrow> (u, order_id, tt) \<notin> set (review_keys rs)"
    by (auto simp: review_keys_def)
  finally show ?thesis .
qed

lemma review_restaurant_reviews:
  "reviews (snd (review_restaurant s order_id rating u)) = reviews s
   \<or> (\<exists>order. food_orders s order_id = Some order \<and> fo_customer_id order = u
         \<and> fo_status order = DELIVERED \<and> valid_rating rating
         \<and> (u, order_id, RESTAURANT) \<notin> set (review_keys (reviews s))
         \<and> reviews (snd (review_restaurant s order_id rating u))
             = reviews s @ [\<lparr>rv_reviewer_id = u, rv_target_type = RESTAURANT,
                               rv_target_id = fo_restaurant_id order, rv_order_id = order_id,
                               rv_rating = rating\<rparr>])"
  by (auto simp: review_restaurant_def Let_def existing_review_None_iff [symmetric]
           split: option.splits sum.splits)

lemma review_driver_reviews:
  "reviews (snd (review_driver s parcel_id rating u)) = reviews s
   \<or> (\<exists>parcel d. parcel_deliveries s parcel_id = Some parcel \<and> pd_sender_id parcel = u
         \<and> pd_status parcel = PARCEL_DELIVERED \<and> pd_driver_id parcel = Some d
         \<and> valid_rating rating
         \<and> (u, parcel_id, DRIVER) \<notin> set (review_keys (reviews s))
         \<and> reviews (snd (review_driver s parcel_id rating u))
             = reviews s @ [\<lparr>rv_reviewer_id = u, rv_target_type = DRIVER,
                               rv_target_id = d, rv_order_id = parcel_id,
                               rv_rating = rating\<rparr>])"
  by (auto simp: review_driver_def Let_def existing_review_None_iff [symmetric]
           split: option.splits sum.splits)

lemma review_restaurant_success:
  "review_restaurant s order_id rating u = (Inr rv, s') \<Longrightarrow> reviews s' = reviews s @ [rv]"
  by (auto simp: review_restaurant_def Let_def split: option.splits sum.splits if_splits)

lemma review_driver_success:
  "review_driver s parcel_id rating u = (Inr rv, s') \<Longrightarrow> reviews s' = reviews s @ [rv]"
  by (auto simp: review_driver_def Let_def split: option.splits sum.splits if_splits)

lemma review_restaurant_again:
  assumes "reviews (snd (review_restaurant s order_id rating u)) \<noteq> reviews s"
    and "valid_rating rating'"
  shows "review_restaurant (snd (review_restaurant s order_id rating u)) order_id rating' u
           = (Inl AlreadyReviewed, snd (review_restaurant s order_id rating u))"
proof -
  let ?s1 = "snd (review_restaurant s order_id rating u)"
  from review_restaurant_reviews [of s order_id rating u] assms(1)
  obtain order where o: "food_orders s order_id = Some order" "fo_customer_id order = u"
      "fo_status order = DELIVERED"
    and r: "(u, order_id, RESTAURANT) \<in> set (review_keys (reviews ?s1))"
    by (auto simp: review_keys_def)
  have "food_orders ?s1 order_id = Some order"
    using o by (simp add: review_restaurant_jobs)
  moreover have "existing_review (reviews ?s1) order_id u RESTAURANT \<noteq> None"
    using r by (simp add: existing_review_None_iff)
  ultimately show ?thesis
    using o assms(2) by (simp add: review_restaurant_def [of ?s1])
qed

lemma review_driver_again:
  assumes "reviews (snd (review_driver s parcel_id rating u)) \<noteq> reviews s"
    and "valid_rating rating'"
  shows "review_driver (snd (review_driver s parcel_id rating u)) parcel_id rating' u
           = (Inl AlreadyReviewed, snd (review_driver s parcel_id rating u))"
proof -
  let ?s1 = "snd (review_driver s parcel_id rating u)"
  from review_driver_reviews [of s parcel_id rating u] assms(1)
  obtain parcel d where o: "parcel_deliveries s parcel_id = Some parcel" "pd_sender_id parcel = u"
      "pd_status parcel = PARCEL_DELIVERED" "pd_driver_id parcel = Some d"
    and r: "(u, parcel_id, DRIVER) \<in> set (review_keys (reviews ?s1))"
    by (auto simp: review_keys_def)
  have "parcel_deliveries ?s1 parcel_id = Some parcel"
    using o by (simp add: review_driver_jobs)
  moreover have "existing_review (reviews ?s1) parcel_id u DRIVER \<noteq> None"
    using r by (simp add: existing_review_None_iff)
  ultimately show ?thesis
    using o assms(2) by (simp add: review_driver_def [of ?s1])
qed

lemma count_delivery_reviews [simp]: "reviews (count_delivery s d) = reviews s"
  by (simp add: count_delivery_def split: option.splits)

lemma handle_reviews:
  "reviews (handle cd s rq) = reviews s
   \<or> (\<exists>r. reviews (handle cd s rq) = reviews s @ [r]
          \<and> (rv_reviewer_id r, rv_order_id r, rv_target_type r) \<notin> set (review_keys (reviews s)))"
proof (cases rq)
  case (CreateFoodOrder order_data u new_id)
  then show ?thesis
    by (auto simp: create_food_order_def Let_def split: option.splits sum.splits prod.splits)
next
  case (CancelOrder order_id u)
  then show ?thesis by (auto simp: cancel_order_def split: option.splits)
next
  case (ReviewRestaurant order_id rating u)
  then show ?thesis using review_restaurant_reviews [of s order_id rating u] by auto
next
  case (CreateParcelDelivery parcel_data u new_id)
  then show ?thesis
    by (auto simp: create_parcel_delivery_def Let_def split: option.splits sum.splits)
next
  case (CancelParcel parcel_id u)
  then show ?thesis by (auto simp: cancel_parcel_def split: option.splits)
next
  case (ReviewDriver parcel_id rating u)
  then show ?thesis using review_driver_reviews [of s parcel_id rating u] by auto
next
  case (AcceptFoodOrder order_id u)
  then show ?thesis by (auto simp: accept_food_order_def Let_def split: option.splits)
next
  case (AcceptParcel parcel_id u)
  then show ?thesis by (auto simp: accept_parcel_def split: option.splits)
next
  case (UpdateOrderStatus order_id new_status u now)
  then show ?thesis by (auto simp: update_order_status_def Let_def split: option.splits)
next
  case (UpdateParcelStatus parcel_id new_status u now)
  then show ?thesis by (auto simp: update_parcel_status_def Let_def split: option.splits)
qed

lemma handle_review_keys_distinct:
  "distinct (review_keys (reviews s)) \<Longrightarrow> distinct (review_keys (reviews (handle cd s rq)))"
  using handle_reviews [of cd s rq] by (auto simp: review_keys_def)

text \<open>
  C9. A review is added only for the job's requester, only when the job is delivered
  (for a parcel, only when it has a driver) and only when that reviewer has no review of
  that job and target type yet; a successful call appends exactly the review it returns.
  After a review was added, a further attempt by the same reviewer on the same job fails
  with \<open>AlreadyReviewed\<close> and changes nothing, and no request ever makes two reviews
  share a (reviewer, job, target type) triple.
\<close>

theorem review_guard:
  "(review_restaurant s order_id rating u = (Inr rv, s') \<longrightarrow> reviews s' = reviews s @ [rv])
   \<and> (reviews (snd (review_restaurant s order_id rating u)) \<noteq> reviews s \<longrightarrow>
        (\<exists>order. food_orders s order_id = Some order \<and> fo_customer_id order = u
           \<and> fo_status order = DELIVERED
           \<and> (u, order_id, RESTAURANT) \<notin> set (review_keys (reviews s))
           \<and> reviews (snd (review_restaurant s order_id rating u))
               = reviews s @ [\<lparr>rv_reviewer_id = u, rv_target_type = RESTAURANT,
                                 rv_target_id = fo_restaurant_id order, rv_order_id = order_id,
                                 rv_rating = rating\<rparr>]))
   \<and> (reviews (snd (review_restaurant s order_id rating u)) \<noteq> reviews s \<and> valid_rating rating' \<longrightarrow>
        review_restaurant (snd (review_restaurant s order_id rating u)) order_id rating' u
          = (Inl AlreadyReviewed, snd (review_restaurant s order_id rating u)))
   \<and> (review_driver s parcel_id rating v = (Inr rv, s') \<longrightarrow> reviews s' = reviews s @ [rv])
   \<and> (reviews (snd (review_driver s parcel_id rating v)) \<noteq> reviews s \<longrightarrow>
        (\<exists>parcel d. parcel_deliveries s parcel_id = Some parcel \<and> pd_sender_id parcel = v
           \<and> pd_status parcel = PARCEL_DELIVERED \<and> pd_driver_id parcel = Some d
           \<and> (v, parcel_id, DRIVER) \<notin> set (review_keys (reviews s))
           \<and> reviews (snd (review_driver s parcel_id rating v))
               = reviews s @ [\<lparr>rv_reviewer_id = v, rv_target_type = DRIVER,
                                 rv_target_id = d, rv_order_id = parcel_id,
                                 rv_rating = rating\<rparr>]))
   \<and> (reviews (snd (review_driver s parcel_id rating v)) \<noteq> reviews s \<and> valid_rating rating' \<longrightarrow>
        review_driver (snd (review_driver s parcel_id rating v)) parcel_id rating' v
          = (Inl AlreadyReviewed, snd (review_driver s parcel_id rating v)))
   \<and> (distinct (review_keys (reviews s)) \<longrightarrow>
        distinct (review_keys (reviews (handle cd s rq))))"
  using review_restaurant_reviews [of s order_id rating u]
    review_driver_reviews [of s parcel_id rating v]
    review_restaurant_again [of s order_id rating u rating']
    review_driver_again [of s parcel_id rating v rating']
    review_restaurant_success [of s order_id rating u rv s']
    review_driver_success [of s parcel_id rating v rv s']
    handle_review_keys_distinct [of s cd rq]
  by blast


theorem review_guard_witness:
  "valid_rating 3
   \<and> reviews example_db = []
   \<and> reviews (snd (review_restaurant example_db 12 5 1))
       = [\<lparr>rv_reviewer_id = 1, rv_target_type = RESTAURANT, rv_target_id = 1,
           rv_order_id = 12, rv_rating = 5\<rparr>]
   \<and> review_restaurant (snd (review_restaurant example_db 12 5 1)) 12 3 1
       = (Inl AlreadyReviewed, snd (review_restaurant example_db 12 5 1))
   \<and> reviews (snd (review_driver example_db 22 4 2))
       = [\<lparr>rv_reviewer_id = 2, rv_target_type = DRIVER, rv_target_id = 7,
           rv_order_id = 22, rv_rating = 4\<rparr>]
   \<and> review_driver (snd (review_driver example_db 22 4 2)) 22 3 2
       = (Inl AlreadyReviewed, snd (review_driver example_db 22 4 2))"
proof -
  have v: "valid_rating 3" by (simp add: valid_rating_def)
  have e: "reviews example_db = []" by (simp add: example_db_def)
  have h1: "reviews (snd (review_restaurant example_db 12 5 1)) \<noteq> reviews example_db"
    by (simp add: review_restaurant_def example_db_def valid_rating_def existing_review_def
          Let_def split: sum.splits option.splits)
  have h2: "reviews (snd (review_driver example_db 22 4 2)) \<noteq> reviews example_db"
    by (simp add: review_driver_def example_db_def valid_rating_def existing_review_def
          Let_def split: sum.splits option.splits)
  note t = review_guard [where s = example_db and order_id = 12 and u = 1
      and parcel_id = 22 and v = 2 and rating' = 3]
  have o: "food_orders example_db 12 = Some order \<Longrightarrow> fo_restaurant_id order = 1" for order
    by (auto simp: example_db_def)
  have p: "parcel_deliveries example_db 22 = Some parcel \<Longrightarrow> pd_driver_id parcel = Some d \<Longrightarrow> d = 7"
    for parcel d
    by (auto simp: example_db_def)
  from t [where rating = 5, THEN conjunct2, THEN conjunct1, THEN mp, OF h1] o e
  have a: "reviews (snd (review_restaurant example_db 12 5 1))
       = [\<lparr>rv_reviewer_id = 1, rv_target_type = RESTAURANT, rv_target_id = 1,
           rv_order_id = 12, rv_rating = 5\<rparr>]"
    by auto
  from t [where rating = 5, THEN conjunct2, THEN conjunct2, THEN conjunct1, THEN mp, OF conjI, OF h1 v]
  have b: "review_restaurant (snd (review_restaurant example_db 12 5 1)) 12 3 1
       = (Inl AlreadyReviewed, snd (review_restaurant example_db 12 5 1))" .
  from t [where rating = 4, THEN conjunct2, THEN conjunct2, THEN conjunct2, THEN conjunct2,
          THEN conjunct1, THEN mp, OF h2] p e
  have c: "reviews (snd (review_driver example_db 22 4 2))
       = [\<lparr>rv_reviewer_id = 2, rv_target_type = DRIVER, rv_target_id = 7,
           rv_order_id = 22, rv_rating = 4\<rparr>]"
    by auto
  from t [where rating = 4, THEN conjunct2, THEN conjunct2, THEN conjunct2, THEN conjunct2,
          THEN conjunct2, THEN conjunct1, THEN mp, OF conjI, OF h2 v]
  have d: "review_driver (snd (review_driver example_db 22 4 2)) 22 3 2
       = (Inl AlreadyReviewed, snd (review_driver example_db 22 4 2))" .
  from v e a b c d show ?thesis by blast
qed


section \<open>Pricing a food order\<close>










lemma round_half_even_rat_quot:
  assumes "0 < b"
  shows "round_half_even_rat (of_int a / of_int b)
           = (if 2 * (a mod b) < b then a div b
              else if b < 2 * (a mod b) then a div b + 1
              else if even (a div b) then a div b else a div b + 1)"
proof -
  have fl: "\<lfloor>(of_int a :: rat) / of_int b\<rfloor> = a div b"
    by (simp add: floor_divide_of_int_eq)
  have "(of_int a :: rat) = of_int (a div b * b + a mod b)" by simp
  also have "\<dots> = of_int (a div b) * of_int b + of_int (a mod b)"
    by (simp only: of_int_add of_int_mult)
  finally have d: "(of_int a :: rat) / of_int b - of_int (a div b) = of_int (a mod b) / of_int b"
    using assms by (simp add: field_simps)
  have lt: "(of_int (a mod b) :: rat) / of_int b < 1 / 2 \<longleftrightarrow> 2 * (a mod b) < b"
  proof -
    have "(of_int (a mod b) :: rat) / of_int b < 1 / 2
            \<longleftrightarrow> (of_int (2 * (a mod b)) :: rat) < of_int b"
      using assms by (simp add: field_simps)
    then show ?thesis by (simp only: of_int_less_iff)
  qed
  have gt: "1 / 2 < (of_int (a mod b) :: rat) / of_int b \<longleftrightarrow> b < 2 * (a mod b)"
  proof -
    have "1 / 2 < (of_int (a mod b) :: rat) / of_int b
            \<longleftrightarrow> (of_int b :: rat) < of_int (2 * (a mod b))"
      using assms by (simp add: field_simps)
    then show ?thesis by (simp only: of_int_less_iff)
  qed
  show ?thesis
    unfolding round_half_even_rat_def Let_def fl d lt gt by simp
qed

lemma round_half_even_rat_numeral:
  "round_half_even_rat (numeral a / numeral b)
     = (if 2 * (numeral a mod numeral b) < (numeral b :: int) then numeral a div numeral b
        else if (numeral b :: int) < 2 * (numeral a mod numeral b)
          then numeral a div numeral b + 1
        else if even (numeral a div numeral b :: int) then numeral a div numeral b
        else numeral a div numeral b + 1)"
  using round_half_even_rat_quot [of "numeral b" "numeral a"] by simp











section \<open>Rating average\<close>

lemma round_half_even_rat_of_int: "round_half_even_rat (of_int a) = a"
  by (simp add: round_half_even_rat_def)

lemma round_half_even_rat_whole: "round_half_even_rat (numeral a) = numeral a"
  using round_half_even_rat_of_int [of "numeral a"] by simp

lemma mean_rating_mset:
  "mset rs = mset rs' \<Longrightarrow> mean_rating rs = mean_rating rs'"
proof -
  assume m: "mset rs = mset rs'"
  then have "sum_mset (mset rs) = sum_mset (mset rs')" by (rule arg_cong)
  then have s: "sum_list rs = sum_list rs'" by (simp only: sum_mset_sum_list)
  from m have l: "length rs = length rs'" by (rule mset_eq_length)
  show ?thesis by (simp add: mean_rating_def s l)
qed

lemma target_ratings_mset:
  "mset rs = mset rs' \<Longrightarrow> mset (target_ratings rs tt t) = mset (target_ratings rs' tt t)"
  by (simp add: target_ratings_def)

lemma review_restaurant_average:
  assumes "review_restaurant s order_id rating u = (Inr rv, s')"
  shows "\<exists>restaurant avg. restaurants s' (rv_target_id rv) = Some restaurant
           \<and> rv_target_type rv = RESTAURANT
           \<and> mean_rating (target_ratings (reviews s') RESTAURANT (rv_target_id rv)) = Inr avg
           \<and> r_rating_average restaurant = avg"
  using assms
  by (auto simp: review_restaurant_def mean_rating_def Let_def target_ratings_def
           split: option.splits sum.splits if_splits)

lemma review_driver_average:
  assumes "review_driver s parcel_id rating v = (Inr rv, s')"
    and "driver_profiles s (rv_target_id rv) \<noteq> None"
  shows "\<exists>profile avg. driver_profiles s' (rv_target_id rv) = Some profile
           \<and> rv_target_type rv = DRIVER
           \<and> mean_rating (target_ratings (reviews s') DRIVER (rv_target_id rv)) = Inr avg
           \<and> dp_rating_average profile = avg"
  using assms
  by (auto simp: review_driver_def mean_rating_def Let_def target_ratings_def
           split: option.splits sum.splits if_splits)

lemma py_truediv_14_3: "py_truediv 14 3 = Inr (5254199565265579 / 1125899906842624)"
  by (simp add: py_truediv_def bit_length.simps pow2_def Let_def round_half_even_rat_numeral
        round_half_even_rat_whole)

lemma py_truediv_4_1: "py_truediv 4 1 = Inr 4"
  by (simp add: py_truediv_def bit_length.simps pow2_def Let_def round_half_even_rat_numeral
        round_half_even_rat_whole)

lemma sample_review:
  "fst (review_restaurant reviewed_db 12 5 1)
     = Inr \<lparr>rv_reviewer_id = 1, rv_target_type = RESTAURANT, rv_target_id = 1,
             rv_order_id = 12, rv_rating = 5\<rparr>"
  "target_ratings (reviews (snd (review_restaurant reviewed_db 12 5 1))) RESTAURANT 1 = [4, 5, 5]"
  "map_option r_rating_average (restaurants (snd (review_restaurant reviewed_db 12 5 1)) 1)
     = Some (5254199565265579 / 1125899906842624)"
  by (simp_all add: review_restaurant_def reviewed_db_def example_db_def valid_rating_def
        existing_review_def target_ratings_def Let_def py_truediv_14_3)

lemma sample_driver_review:
  "fst (review_driver example_db 22 4 2)
     = Inr \<lparr>rv_reviewer_id = 2, rv_target_type = DRIVER, rv_target_id = 7,
             rv_order_id = 22, rv_rating = 4\<rparr>"
  "map_option dp_rating_average (driver_profiles (snd (review_driver example_db 22 4 2)) 7)
     = Some 4"
  by (simp_all add: review_driver_def example_db_def valid_rating_def
        existing_review_def target_ratings_def Let_def py_truediv_4_1)

text \<open>
  C6. After a review of a restaurant is created, the restaurant's stored average is the
  float quotient of the sum of the ratings of all reviews of that restaurant by their
  number, not rounded to one decimal place; the same holds for the profile of a reviewed
  driver when the driver has a profile. The value depends only on the multiset of reviews,
  not on their order.
\<close>

theorem rating_average_recomputed:
  "(review_restaurant s order_id rating u = (Inr rv, s') \<longrightarrow>
      (\<exists>restaurant avg. restaurants s' (rv_target_id rv) = Some restaurant
         \<and> rv_target_type rv = RESTAURANT
         \<and> mean_rating (target_ratings (reviews s') RESTAURANT (rv_target_id rv)) = Inr avg
         \<and> r_rating_average restaurant = avg))
   \<and> (review_driver s parcel_id rating v = (Inr rv, s')
        \<and> driver_profiles s (rv_target_id rv) \<noteq> None \<longrightarrow>
      (\<exists>profile avg. driver_profiles s' (rv_target_id rv) = Some profile
         \<and> rv_target_type rv = DRIVER
         \<and> mean_rating (target_ratings (reviews s') DRIVER (rv_target_id rv)) = Inr avg
         \<and> dp_rating_average profile = avg))
   \<and> (mset rs = mset rs' \<longrightarrow>
        mean_rating (target_ratings rs tt t) = mean_rating (target_ratings rs' tt t))"
  using review_restaurant_average [of s order_id rating u rv s']
    review_driver_average [of s parcel_id rating v rv s']
    mean_rating_mset [OF target_ratings_mset, of rs rs' tt t]
  by blast


theorem rating_average_recomputed_witness:
  "mean_rating [4, 5, 5] = Inr (5254199565265579 / 1125899906842624)
   \<and> (\<exists>restaurant. restaurants (snd (review_restaurant reviewed_db 12 5 1)) 1 = Some restaurant
         \<and> mean_rating [4, 5, 5] = Inr (r_rating_average restaurant))
   \<and> (\<exists>profile. driver_profiles (snd (review_driver example_db 22 4 2)) 7 = Some profile
         \<and> mean_rating (target_ratings (reviews (snd (review_driver example_db 22 4 2))) DRIVER 7)
             = Inr (dp_rating_average profile))
   \<and> mean_rating (target_ratings (rev (reviews reviewed_db)) RESTAURANT 1)
       = mean_rating (target_ratings (reviews reviewed_db) RESTAURANT 1)"
proof -
  let ?rv = "\<lparr>rv_reviewer_id = 1, rv_target_type = RESTAURANT, rv_target_id = 1,
             rv_order_id = 12, rv_rating = 5\<rparr>"
  let ?s' = "snd (review_restaurant reviewed_db 12 5 1)"
  let ?dv = "\<lparr>rv_reviewer_id = 2, rv_target_type = DRIVER, rv_target_id = 7,
             rv_order_id = 22, rv_rating = 4\<rparr>"
  let ?d' = "snd (review_driver example_db 22 4 2)"
  have r: "review_restaurant reviewed_db 12 5 1 = (Inr ?rv, ?s')"
    using sample_review(1) by (simp add: prod_eq_iff)
  have d: "review_driver example_db 22 4 2 = (Inr ?dv, ?d')
      \<and> driver_profiles example_db (rv_target_id ?dv) \<noteq> None"
    using sample_driver_review(1) by (simp add: prod_eq_iff example_db_def)
  have m: "mset (rev (reviews reviewed_db)) = mset (reviews reviewed_db)" by simp
  note t = rating_average_recomputed [where s' = ?s' and rv = ?rv and s = reviewed_db
      and order_id = 12 and rating = 5 and u = 1]
  note t2 = rating_average_recomputed [where s' = ?d' and rv = ?dv and s = example_db
      and parcel_id = 22 and rating = 4 and v = 2]
  from t [THEN conjunct1, THEN mp, OF r] sample_review(2)
  have a: "\<exists>restaurant. restaurants ?s' 1 = Some restaurant
         \<and> mean_rating [4, 5, 5] = Inr (r_rating_average restaurant)"
    by auto
  from t2 [THEN conjunct2, THEN conjunct1, THEN mp, OF d]
  have b: "\<exists>profile. driver_profiles ?d' 7 = Some profile
         \<and> mean_rating (target_ratings (reviews ?d') DRIVER 7) = Inr (dp_rating_average profile)"
    by auto
  from t [where rs = "rev (reviews reviewed_db)" and rs' = "reviews reviewed_db"
      and tt = RESTAURANT and t = 1, THEN conjunct2, THEN conjunct2, THEN mp, OF m]
  have c: "mean_rating (target_ratings (rev (reviews reviewed_db)) RESTAURANT 1)
       = mean_rating (target_ratings (reviews reviewed_db) RESTAURANT 1)" .
  have e: "mean_rating [4, 5, 5] = Inr (5254199565265579 / 1125899906842624)"
    by (simp add: mean_rating_def py_truediv_14_3)
  from e a b c show ?thesis by (intro conjI)
qed

text \<open>
  With ratings 4, 5, 5 the stored average is the double nearest to 14/3, which is
  4.666666666666667, where \<^verbatim>\<open>round(mean, 1)\<close> is 4.7.
\<close>

theorem rating_average_not_rounded:
  "fst (review_restaurant reviewed_db 12 5 1)
     = Inr \<lparr>rv_reviewer_id = 1, rv_target_type = RESTAURANT, rv_target_id = 1,
             rv_order_id = 12, rv_rating = 5\<rparr>
   \<and> target_ratings (reviews (snd (review_restaurant reviewed_db 12 5 1))) RESTAURANT 1 = [4, 5, 5]
   \<and> map_option r_rating_average (restaurants (snd (review_restaurant reviewed_db 12 5 1)) 1)
       = Some (5254199565265579 / 1125899906842624)
   \<and> spec_rating_average [4, 5, 5] = 47 / 10
   \<and> (5254199565265579 / 1125899906842624 :: rat) \<noteq> spec_rating_average [4, 5, 5]"
proof -
  have a: "spec_rating_average [4, 5, 5] = 47 / 10"
    by (simp add: spec_rating_average_def spec_round_def round_half_even_rat_numeral)
  have b: "(5254199565265579 / 1125899906842624 :: rat) \<noteq> spec_rating_average [4, 5, 5]"
    unfolding a by simp
  from sample_review a b show ?thesis by (intro conjI)
qed


end
